theory Spec2Isabelle
  imports Complex_Main "HOL-Library.Multiset" "HOL-Library.Sublist"
begin

section \<open>Keyword scanner: configuration\<close>

text \<open>
  The repository holds two scan scripts that share their helpers almost verbatim:
  \<^verbatim>\<open>full_scan.py\<close> and \<^verbatim>\<open>niche_scanner.py\<close>. Where they differ (backoff delay, the text
  stored for an error, the output written at the end) the model is indexed by the script.
  Python numbers are modelled as exact reals: the rounding of binary floating point in
  the arithmetic is not part of the model, and the built-in \<^verbatim>\<open>round\<close> is a parameter.
  Strings are lists of 8-bit characters, so a length or a truncation counts bytes where
  Python counts code points; the two agree on ASCII text.
  Of \<^verbatim>\<open>niche_scanner.py\<close> the helpers, \<^verbatim>\<open>get_keyword_data\<close>, the checkpoint store and
  \<^verbatim>\<open>save_final_results\<close> are modelled; of \<^verbatim>\<open>full_scan.py\<close> also \<^verbatim>\<open>main\<close>.
\<close>

datatype script = FullScan | NicheScanner

definition MAX_RETRIES :: nat where
  "MAX_RETRIES = 3"

fun REQUEST_DELAY :: "script \<Rightarrow> nat" where
  "REQUEST_DELAY FullScan = 18"
| "REQUEST_DELAY NicheScanner = 15"

fun RETRY_DELAY :: "script \<Rightarrow> nat" where
  "RETRY_DELAY FullScan = 45"
| "RETRY_DELAY NicheScanner = 30"

definition WEIGHTS :: "(string \<times> real) list" where
  "WEIGHTS = [(''1mo'', 0.30), (''3mo'', 0.25), (''6mo'', 0.20), (''1yr'', 0.15), (''5yr'', 0.10)]"

definition MIN_GROWTH_THRESHOLD :: real where
  "MIN_GROWTH_THRESHOLD = 300"

definition MAX_GROWTH_CAP :: real where
  "MAX_GROWTH_CAP = 10000"

definition CHECKPOINT_INTERVAL :: nat where
  "CHECKPOINT_INTERVAL = 5"

section \<open>Helpers\<close>

text \<open>\<^verbatim>\<open>calculate_growth(current, past)\<close>, the same in both scripts.\<close>

definition calculate_growth :: "real \<Rightarrow> real \<Rightarrow> real" where
  "calculate_growth current past =
     (if past \<le> 0 then (if current > 0 then MAX_GROWTH_CAP else 0)
      else (let growth = ((current - past) / past) * 100
            in min growth MAX_GROWTH_CAP))"

text \<open>
  \<^verbatim>\<open>get_time_periods\<close>: the frame is the list of the keyword's weekly values, oldest
  first; \<^verbatim>\<open>iloc[-k]\<close> is the k-th value from the end, read only when the frame has more than
  k rows. An empty frame gives \<^verbatim>\<open>None\<close>.
\<close>

record periods =
  p_current :: real
  p_1mo_ago :: real
  p_3mo_ago :: real
  p_6mo_ago :: real
  p_1yr_ago :: real
  p_5yr_ago :: real

definition iloc_back :: "real list \<Rightarrow> nat \<Rightarrow> real" where
  "iloc_back df k = (if length df > k then df ! (length df - k) else df ! 0)"

definition get_time_periods :: "real list \<Rightarrow> periods option" where
  "get_time_periods df =
     (if df = [] then None
      else Some \<lparr> p_current = df ! (length df - 1),
                  p_1mo_ago = iloc_back df 5,
                  p_3mo_ago = iloc_back df 13,
                  p_6mo_ago = iloc_back df 26,
                  p_1yr_ago = iloc_back df 52,
                  p_5yr_ago = df ! 0 \<rparr>)"

text \<open>
  A Python dict with string keys is an association list (insertion order first), whose
  keys are distinct; \<^verbatim>\<open>d.get(k, default)\<close> is \<open>py_get\<close>. Indexing the constant table
  \<^verbatim>\<open>WEIGHTS\<close> is \<open>weight\<close>; every key the code uses is present in the table.
\<close>

definition py_get :: "(string \<times> real) list \<Rightarrow> string \<Rightarrow> real \<Rightarrow> real" where
  "py_get d k dflt = (case map_of d k of None \<Rightarrow> dflt | Some v \<Rightarrow> v)"

definition weight :: "string \<Rightarrow> real" where
  "weight k = the (map_of WEIGHTS k)"


definition weighted_sum :: "(string \<times> real) list \<Rightarrow> real" where
  "weighted_sum g =
     py_get g ''growth_1mo'' 0 * weight ''1mo'' +
     py_get g ''growth_3mo'' 0 * weight ''3mo'' +
     py_get g ''growth_6mo'' 0 * weight ''6mo'' +
     py_get g ''growth_1yr'' 0 * weight ''1yr'' +
     py_get g ''growth_5yr'' 0 * weight ''5yr''"

definition calculate_score :: "(real \<Rightarrow> real) \<Rightarrow> (string \<times> real) list \<Rightarrow> real" where
  "calculate_score py_round g = py_round (weighted_sum g)"

section \<open>Scan results\<close>

text \<open>
  An entry of a result that holds text or nothing: \<^verbatim>\<open>None\<close>, a string, or the float
  \<^verbatim>\<open>nan\<close> that \<^verbatim>\<open>read_csv\<close> puts where a field of the file is empty. A result built by
  \<^verbatim>\<open>get_keyword_data\<close> has no \<^verbatim>\<open>nan\<close>; a result loaded from the checkpoint has one wherever
  \<^verbatim>\<open>None\<close> or the empty string was saved.
\<close>

datatype cell = PyNone | NaN | Str string

record scan_result =
  keyword :: string
  category :: string
  current_interest :: real
  growth_5yr :: real
  growth_1yr :: real
  growth_6mo :: real
  growth_3mo :: real
  growth_1mo :: real
  related_queries :: cell
  rising_queries :: cell
  recommendation_score :: real
  error :: cell

text \<open>
  Python truth value of such an entry, as in \<^verbatim>\<open>if r.get('error')\<close>: \<^verbatim>\<open>None\<close> and the
  empty string are false; \<^verbatim>\<open>nan\<close>, a non-zero float, is true; every other string is true.
\<close>

fun truthy :: "cell \<Rightarrow> bool" where
  "truthy PyNone = False"
| "truthy NaN = True"
| "truthy (Str s) = (s \<noteq> [])"

text \<open>\<^verbatim>\<open>passes_threshold(r)\<close>, the same in both scripts.\<close>

definition passes_threshold :: "scan_result \<Rightarrow> bool" where
  "passes_threshold r =
     (if truthy (error r) then False
      else (growth_5yr r \<ge> MIN_GROWTH_THRESHOLD \<or>
            growth_1yr r \<ge> MIN_GROWTH_THRESHOLD \<or>
            growth_6mo r \<ge> MIN_GROWTH_THRESHOLD \<or>
            growth_3mo r \<ge> MIN_GROWTH_THRESHOLD \<or>
            growth_1mo r \<ge> MIN_GROWTH_THRESHOLD))"

section \<open>Strings\<close>

text \<open>
  \<^verbatim>\<open>str.lower()\<close> on ASCII letters, \<^verbatim>\<open>sub in s\<close> (a contiguous substring, \<open>sublist\<close>), and
  \<^verbatim>\<open>sep.join(xs)\<close>.
\<close>

definition lower_char :: "char \<Rightarrow> char" where
  "lower_char c = (let n = (of_char c :: nat) in if 65 \<le> n \<and> n \<le> 90 then char_of (n + 32) else c)"

definition lower :: "string \<Rightarrow> string" where
  "lower s = map lower_char s"

fun join :: "string \<Rightarrow> string list \<Rightarrow> string" where
  "join sep [] = []"
| "join sep [x] = x"
| "join sep (x # y # ys) = x @ sep @ join sep (y # ys)"

section \<open>The remote API and the effects of a fetch\<close>

text \<open>
  The scripts talk to the trends service through \<^verbatim>\<open>pytrends\<close> and pause with
  \<^verbatim>\<open>time.sleep\<close>. The model records these effects, in order, in a trace. What the service
  answers is not under the program's control: it is a parameter, a function of everything
  that happened so far and of the keyword. \<open>Raises msg\<close> is an exception whose \<^verbatim>\<open>str(e)\<close> is
  \<open>msg\<close>, raised by \<^verbatim>\<open>build_payload\<close> or \<^verbatim>\<open>interest_over_time\<close>; \<open>Frame df\<close> is the returned
  frame, given by the keyword's column (the \<^verbatim>\<open>isPartial\<close> column is dropped by the code).
  Console output is not modelled.
\<close>

datatype event = Request string | RelatedRequest string | Sleep nat

datatype interest_response = Raises string | Frame "real list"

datatype related_response =
    RelatedRaises
  | RelatedAbsent
  | RelatedFor "string list option" "string list option"

record pytrends =
  interest_over_time :: "event list \<Rightarrow> string \<Rightarrow> interest_response"
  related_queries_call :: "event list \<Rightarrow> string \<Rightarrow> related_response"

definition is_rate_limit :: "string \<Rightarrow> bool" where
  "is_rate_limit msg = (sublist ''429'' msg \<or> sublist ''rate'' (lower msg))"

text \<open>The text stored for a failure that is not a rate limit, and after the last retry.\<close>

fun stored_error :: "script \<Rightarrow> string \<Rightarrow> string" where
  "stored_error FullScan msg = take 50 msg"
| "stored_error NicheScanner msg = msg"

fun max_retries_text :: "script \<Rightarrow> string" where
  "max_retries_text FullScan = ''Max retries''"
| "max_retries_text NicheScanner = ''Max retries exceeded''"

definition initial_result :: "string \<Rightarrow> string \<Rightarrow> scan_result" where
  "initial_result kw cat =
     \<lparr> keyword = kw, category = cat, current_interest = 0,
       growth_5yr = 0, growth_1yr = 0, growth_6mo = 0, growth_3mo = 0, growth_1mo = 0,
       related_queries = Str [], rising_queries = Str [],
       recommendation_score = 0, error = PyNone \<rparr>"

definition set_growth :: "real list \<Rightarrow> scan_result \<Rightarrow> scan_result" where
  "set_growth df result =
     (case get_time_periods df of
        None \<Rightarrow> result
      | Some p \<Rightarrow> result
          \<lparr> current_interest := p_current p,
            growth_5yr := calculate_growth (p_current p) (p_5yr_ago p),
            growth_1yr := calculate_growth (p_current p) (p_1yr_ago p),
            growth_6mo := calculate_growth (p_current p) (p_6mo_ago p),
            growth_3mo := calculate_growth (p_current p) (p_3mo_ago p),
            growth_1mo := calculate_growth (p_current p) (p_1mo_ago p) \<rparr>)"

text \<open>The best-effort related queries: a failure there leaves the result as it is.\<close>

fun set_related :: "related_response \<Rightarrow> scan_result \<Rightarrow> scan_result" where
  "set_related RelatedRaises result = result"
| "set_related RelatedAbsent result = result"
| "set_related (RelatedFor top_qs rising_qs) result =
     (let r1 = (case top_qs of None \<Rightarrow> result
                | Some qs \<Rightarrow> result\<lparr>related_queries := Str (join ''; '' (take 5 qs))\<rparr>)
      in (case rising_qs of None \<Rightarrow> r1
          | Some qs \<Rightarrow> r1\<lparr>rising_queries := Str (join ''; '' (take 5 qs))\<rparr>))"

definition set_score :: "(real \<Rightarrow> real) \<Rightarrow> scan_result \<Rightarrow> scan_result" where
  "set_score py_round result =
     result\<lparr>recommendation_score := calculate_score py_round
       [(''growth_1mo'', growth_1mo result), (''growth_3mo'', growth_3mo result),
        (''growth_6mo'', growth_6mo result), (''growth_1yr'', growth_1yr result),
        (''growth_5yr'', growth_5yr result)]\<rparr>"

text \<open>
  \<^verbatim>\<open>get_keyword_data\<close>: the loop \<^verbatim>\<open>for attempt in range(MAX_RETRIES)\<close> is \<open>attempt_loop\<close>, by
  recursion on the attempts that are left; it returns the result and the trace.
\<close>

fun attempt_loop ::
  "script \<Rightarrow> (real \<Rightarrow> real) \<Rightarrow> pytrends \<Rightarrow> string \<Rightarrow> scan_result \<Rightarrow> nat \<Rightarrow> event list \<Rightarrow> scan_result \<times> event list" where
  "attempt_loop sc py_round api kw result 0 tr = (result\<lparr>error := Str (max_retries_text sc)\<rparr>, tr)"
| "attempt_loop sc py_round api kw result (Suc n) tr =
     (case interest_over_time api tr kw of
        Raises msg \<Rightarrow>
          if is_rate_limit msg
          then attempt_loop sc py_round api kw result n (tr @ [Request kw, Sleep (RETRY_DELAY sc)])
          else (result\<lparr>error := Str (stored_error sc msg)\<rparr>, tr @ [Request kw])
      | Frame df \<Rightarrow>
          if df = [] then (result\<lparr>error := Str ''No data''\<rparr>, tr @ [Request kw])
          else (let r1 = set_growth df result;
                    tr1 = tr @ [Request kw, Sleep 2];
                    r2 = set_related (related_queries_call api tr1 kw) r1
                in (set_score py_round r2, tr1 @ [RelatedRequest kw])))"

definition get_keyword_data ::
  "script \<Rightarrow> (real \<Rightarrow> real) \<Rightarrow> pytrends \<Rightarrow> string \<Rightarrow> string \<Rightarrow> event list \<Rightarrow> scan_result \<times> event list" where
  "get_keyword_data sc py_round api kw cat tr = attempt_loop sc py_round api kw (initial_result kw cat) MAX_RETRIES tr"

text \<open>
  The history after \<open>j\<close> rate-limited attempts for \<open>kw\<close>: each is a request followed by the
  backoff sleep.
\<close>

definition backoff_trace :: "script \<Rightarrow> string \<Rightarrow> event list \<Rightarrow> nat \<Rightarrow> event list" where
  "backoff_trace sc kw tr j = tr @ concat (replicate j [Request kw, Sleep (RETRY_DELAY sc)])"

definition rate_limited :: "interest_response \<Rightarrow> bool" where
  "rate_limited resp = (case resp of Raises msg \<Rightarrow> is_rate_limit msg | Frame df \<Rightarrow> False)"

section \<open>Checkpoint store\<close>

text \<open>
  The state of the process: the trace and the two files, each absent or holding a table.
  Writing and parsing CSV is done by pandas; \<open>to_csv\<close> and \<open>read_csv\<close> are parameters of
  the model, and \<open>'f\<close> is what a file holds.
\<close>

record 'f world =
  trace :: "event list"
  checkpoint_file :: "'f option"
  output_file :: "'f option"

fun processed_key :: "script \<Rightarrow> string \<Rightarrow> string" where
  "processed_key FullScan kw = lower kw"
| "processed_key NicheScanner kw = kw"

definition load_checkpoint ::
  "script \<Rightarrow> ('f \<Rightarrow> scan_result list) \<Rightarrow> 'f world \<Rightarrow> scan_result list \<times> string set" where
  "load_checkpoint sc read_csv w =
     (case checkpoint_file w of
        Some f \<Rightarrow> (let results = read_csv f;
                       processed = set (map (processed_key sc \<circ> keyword) results)
                   in (results, processed))
      | None \<Rightarrow> ([], {}))"

definition save_checkpoint ::
  "(scan_result list \<Rightarrow> 'f) \<Rightarrow> scan_result list \<Rightarrow> 'f world \<Rightarrow> 'f world" where
  "save_checkpoint to_csv results w =
     (if results \<noteq> [] then w\<lparr>checkpoint_file := Some (to_csv results)\<rparr> else w)"

text \<open>
  What \<^verbatim>\<open>pd.DataFrame(results).to_csv(file, index=False)\<close> writes, row by row, with the
  defaults of pandas, which is outside the repository: a number as the number, a string as
  it is, and \<^verbatim>\<open>None\<close> and \<^verbatim>\<open>nan\<close> as the empty field. Quoting and the printing of numbers
  are not modelled. \<open>pandas_to_csv\<close> is one value of the parameter \<open>to_csv\<close>.
\<close>

fun csv_field :: "cell \<Rightarrow> string" where
  "csv_field PyNone = []"
| "csv_field NaN = []"
| "csv_field (Str s) = s"

record csv_row =
  csv_keyword :: string
  csv_category :: string
  csv_current_interest :: real
  csv_growth_5yr :: real
  csv_growth_1yr :: real
  csv_growth_6mo :: real
  csv_growth_3mo :: real
  csv_growth_1mo :: real
  csv_related_queries :: string
  csv_rising_queries :: string
  csv_recommendation_score :: real
  csv_error :: string

definition pandas_to_csv :: "scan_result list \<Rightarrow> csv_row list" where
  "pandas_to_csv results =
     map (\<lambda>r. \<lparr> csv_keyword = keyword r, csv_category = category r,
                 csv_current_interest = current_interest r,
                 csv_growth_5yr = growth_5yr r, csv_growth_1yr = growth_1yr r,
                 csv_growth_6mo = growth_6mo r, csv_growth_3mo = growth_3mo r,
                 csv_growth_1mo = growth_1mo r,
                 csv_related_queries = csv_field (related_queries r),
                 csv_rising_queries = csv_field (rising_queries r),
                 csv_recommendation_score = recommendation_score r,
                 csv_error = csv_field (error r) \<rparr>) results"

section \<open>The scan of \<^verbatim>\<open>full_scan.py\<close>\<close>

record keyword_task =
  task_keyword :: string
  task_category :: string

text \<open>The de-duplication loop of \<^verbatim>\<open>main\<close>: the first occurrence of a lower-cased keyword stays.\<close>

fun dedupe_loop :: "string set \<Rightarrow> keyword_task list \<Rightarrow> keyword_task list \<Rightarrow> keyword_task list" where
  "dedupe_loop seen unique [] = unique"
| "dedupe_loop seen unique (kw # rest) =
     (let key = lower (task_keyword kw)
      in if key \<notin> seen then dedupe_loop (insert key seen) (unique @ [kw]) rest
         else dedupe_loop seen unique rest)"

definition dedupe :: "keyword_task list \<Rightarrow> keyword_task list" where
  "dedupe all_keywords = dedupe_loop {} [] all_keywords"

text \<open>
  The loop \<^verbatim>\<open>for i, kw_data in enumerate(remaining)\<close>: fetch, append, checkpoint every
  \<open>CHECKPOINT_INTERVAL\<close> keywords, pause.
\<close>

fun scan_loop ::
  "(real \<Rightarrow> real) \<Rightarrow> pytrends \<Rightarrow> (scan_result list \<Rightarrow> 'f) \<Rightarrow> nat \<Rightarrow> keyword_task list \<Rightarrow> scan_result list \<Rightarrow> 'f world
     \<Rightarrow> scan_result list \<times> 'f world" where
  "scan_loop py_round api to_csv i [] results w = (results, w)"
| "scan_loop py_round api to_csv i (kw_data # rest) results w =
     (let (result, tr) = get_keyword_data FullScan py_round api (task_keyword kw_data) (task_category kw_data) (trace w);
          results1 = results @ [result];
          w1 = w\<lparr>trace := tr\<rparr>;
          w2 = (if (i + 1) mod CHECKPOINT_INTERVAL = 0 then save_checkpoint to_csv results1 w1 else w1);
          w3 = w2\<lparr>trace := trace w2 @ [Sleep (REQUEST_DELAY FullScan)]\<rparr>
      in scan_loop py_round api to_csv (i + 1) rest results1 w3)"

definition remaining_of :: "keyword_task list \<Rightarrow> string set \<Rightarrow> keyword_task list" where
  "remaining_of all_keywords processed =
     filter (\<lambda>k. lower (task_keyword k) \<notin> processed) all_keywords"

text \<open>\<^verbatim>\<open>main\<close> from the loading of the checkpoint to the save after the loop.\<close>

definition run_scan ::
  "(real \<Rightarrow> real) \<Rightarrow> pytrends \<Rightarrow> ('f \<Rightarrow> scan_result list) \<Rightarrow> (scan_result list \<Rightarrow> 'f) \<Rightarrow> keyword_task list \<Rightarrow> 'f world
     \<Rightarrow> scan_result list \<times> 'f world" where
  "run_scan py_round api read_csv to_csv all_keywords w =
     (let (results, processed) = load_checkpoint FullScan read_csv w;
          remaining = remaining_of all_keywords processed
      in if remaining = [] then (results, w)
         else (let (results1, w1) = scan_loop py_round api to_csv 0 remaining results w
               in (results1, save_checkpoint to_csv results1 w1)))"

section \<open>Final output\<close>

text \<open>
  \<^verbatim>\<open>df.sort_values('recommendation_score', ascending=False)\<close>. The order pandas gives to rows
  of equal score is not part of what is proved below.
\<close>

datatype py_error = KeyError

definition sort_values_desc :: "scan_result list \<Rightarrow> scan_result list" where
  "sort_values_desc rows = sort_key (\<lambda>r. - recommendation_score r) rows"

text \<open>
  The end of \<^verbatim>\<open>main\<close> in \<^verbatim>\<open>full_scan.py\<close>: the frame of all results is sorted and written;
  \<^verbatim>\<open>passing\<close> is only counted and listed on the console. A frame built from no results has no
  \<^verbatim>\<open>error\<close> column, and reading it raises.
\<close>

definition final_output ::
  "(scan_result list \<Rightarrow> 'f) \<Rightarrow> scan_result list \<Rightarrow> 'f world \<Rightarrow> py_error + 'f world" where
  "final_output to_csv results w =
     (if results = [] then Inl KeyError
      else (let df = sort_values_desc results
            in Inr (w\<lparr>output_file := Some (to_csv df), checkpoint_file := None\<rparr>)))"

text \<open>
  \<^verbatim>\<open>main\<close>: the list built from \<^verbatim>\<open>HEALTH_KEYWORDS\<close> and the file of discovered keywords is
  the parameter \<open>seeds_and_discovered\<close>.
\<close>

definition main ::
  "(real \<Rightarrow> real) \<Rightarrow> pytrends \<Rightarrow> ('f \<Rightarrow> scan_result list) \<Rightarrow> (scan_result list \<Rightarrow> 'f) \<Rightarrow> keyword_task list \<Rightarrow> 'f world
     \<Rightarrow> py_error + 'f world" where
  "main py_round api read_csv to_csv seeds_and_discovered w =
     (let all_keywords = dedupe seeds_and_discovered;
          (results, w1) = run_scan py_round api read_csv to_csv all_keywords w
      in final_output to_csv results w1)"

text \<open>
  \<^verbatim>\<open>save_final_results\<close> of \<^verbatim>\<open>niche_scanner.py\<close>: the passing results, or every result with no
  error when none passes, sorted and written. The column selection keeps every column but
  \<^verbatim>\<open>error\<close>; the model keeps the records whole. A frame built from an empty list has no
  \<^verbatim>\<open>recommendation_score\<close> column, and sorting by it raises.
\<close>

definition save_final_results ::
  "(scan_result list \<Rightarrow> 'f) \<Rightarrow> scan_result list \<Rightarrow> 'f world \<Rightarrow> py_error + (scan_result list \<times> 'f world)" where
  "save_final_results to_csv results w =
     (let passing = filter passes_threshold results;
          passing = (if passing = [] then filter (\<lambda>r. \<not> truthy (error r)) results else passing)
      in if passing = [] then Inl KeyError
         else (let df = sort_values_desc passing
               in Inr (df, w\<lparr>output_file := Some (to_csv df), checkpoint_file := None\<rparr>)))"


text \<open>
  The identity of a keyword is its lower-cased text: \<^verbatim>\<open>kw['keyword'].lower()\<close> in the
  de-duplication and in the filter of the remaining keywords, \<^verbatim>\<open>df['keyword'].str.lower()\<close>
  when the checkpoint is loaded.
\<close>

definition task_key :: "keyword_task \<Rightarrow> string" where
  "task_key k = lower (task_keyword k)"

definition result_key :: "scan_result \<Rightarrow> string" where
  "result_key r = lower (keyword r)"

text \<open>The keywords requested from the service, in the order of the trace.\<close>

fun requests :: "event list \<Rightarrow> string list" where
  "requests [] = []"
| "requests (Request kw # tr) = kw # requests tr"
| "requests (ev # tr) = requests tr"

section \<open>Example inputs\<close>

text \<open>
  Two functions that round to two decimals. They differ where the argument lies halfway
  between two multiples of 1/100.
\<close>

definition round_half_even :: "real \<Rightarrow> int" where
  "round_half_even x =
     (let f = \<lfloor>x\<rfloor>; d = x - of_int f
      in if d < 1 / 2 then f
         else if d > 1 / 2 then f + 1
         else if even f then f else f + 1)"

definition half_even_round2 :: "real \<Rightarrow> real" where
  "half_even_round2 x = of_int (round_half_even (x * 100)) / 100"



text \<open>
  A reader of the rows written by \<open>pandas_to_csv\<close>, for the examples: an empty field is read
  as \<^verbatim>\<open>nan\<close>, any other field as the string it holds. The \<^verbatim>\<open>read_csv\<close> of pandas also reads
  some non-empty fields as missing or as numbers; no such field occurs in the examples.
\<close>

definition read_field :: "string \<Rightarrow> cell" where
  "read_field s = (if s = [] then NaN else Str s)"

definition example_read_csv :: "csv_row list \<Rightarrow> scan_result list" where
  "example_read_csv rows =
     map (\<lambda>c. \<lparr> keyword = csv_keyword c, category = csv_category c,
                 current_interest = csv_current_interest c,
                 growth_5yr = csv_growth_5yr c, growth_1yr = csv_growth_1yr c,
                 growth_6mo = csv_growth_6mo c, growth_3mo = csv_growth_3mo c,
                 growth_1mo = csv_growth_1mo c,
                 related_queries = read_field (csv_related_queries c),
                 rising_queries = read_field (csv_rising_queries c),
                 recommendation_score = csv_recommendation_score c,
                 error = read_field (csv_error c) \<rparr>) rows"

definition timeout_text :: string where
  "timeout_text = ''HTTPSConnectionPool(host=trends.google.com, port=443): Read timed out.''"

definition busy_api :: pytrends where
  "busy_api = \<lparr>interest_over_time = (\<lambda>tr kw. Raises ''Too Many Requests (429)''),
                related_queries_call = (\<lambda>tr kw. RelatedAbsent)\<rparr>"

definition flaky_api :: pytrends where
  "flaky_api = \<lparr>interest_over_time = (\<lambda>tr kw. if tr = [] then Raises ''Rate exceeded'' else Raises timeout_text),
                 related_queries_call = (\<lambda>tr kw. RelatedAbsent)\<rparr>"

definition timeout_api :: pytrends where
  "timeout_api = \<lparr>interest_over_time = (\<lambda>tr kw. Raises timeout_text),
                   related_queries_call = (\<lambda>tr kw. RelatedAbsent)\<rparr>"


definition no_data_api :: pytrends where
  "no_data_api = \<lparr>interest_over_time = (\<lambda>tr kw. Frame []), related_queries_call = (\<lambda>tr kw. RelatedAbsent)\<rparr>"

definition example_queue :: "keyword_task list" where
  "example_queue =
     [\<lparr>task_keyword = ''zinc'', task_category = ''supplements''\<rparr>,
      \<lparr>task_keyword = ''PCOS'', task_category = ''womens_health''\<rparr>,
      \<lparr>task_keyword = ''GABA'', task_category = ''sleep_stress''\<rparr>]"

definition example_checkpoint :: "scan_result list" where
  "example_checkpoint = [(initial_result ''PCOS'' ''womens_health'')\<lparr>error := Str ''No data''\<rparr>]"

definition example_world :: "scan_result list world" where
  "example_world = \<lparr>trace = [], checkpoint_file = Some example_checkpoint, output_file = None\<rparr>"

definition example_rising :: scan_result where
  "example_rising = (initial_result ''kw1'' ''catA'')
     \<lparr>current_interest := 80, growth_1yr := 300, recommendation_score := 45\<rparr>"

definition example_flat :: scan_result where
  "example_flat = (initial_result ''kw2'' ''catA'')\<lparr>current_interest := 10\<rparr>"

definition example_breakout :: scan_result where
  "example_breakout = (initial_result ''kw3'' ''catA'')
     \<lparr>current_interest := 50, growth_1mo := 500, recommendation_score := 150\<rparr>"

definition example_failed :: scan_result where
  "example_failed = (initial_result ''kw4'' ''catA'')\<lparr>error := Str ''No data''\<rparr>"

text \<open>
  \<open>example_rising\<close> as it is after a save and a load, and with the empty string for its
  error.
\<close>

definition example_reloaded :: scan_result where
  "example_reloaded = example_rising\<lparr>related_queries := NaN, rising_queries := NaN, error := NaN\<rparr>"


definition empty_world :: "'f world" where
  "empty_world = \<lparr>trace = [], checkpoint_file = None, output_file = None\<rparr>"

section \<open>Properties of the helpers\<close>

text \<open>
  Claim C1. For non-negative \<open>current\<close> and \<open>past\<close>, \<open>calculate_growth\<close> returns the cap
  when \<open>past = 0\<close> and \<open>current > 0\<close>, returns 0 when both are 0, and otherwise returns
  \<open>((current - past) / past) * 100\<close> bounded above by the cap.
\<close>

theorem calculate_growth_cases:
  assumes "0 \<le> current" and "0 \<le> past"
  shows "(past = 0 \<and> current > 0 \<longrightarrow> calculate_growth current past = MAX_GROWTH_CAP) \<and>
         (past = 0 \<and> current = 0 \<longrightarrow> calculate_growth current past = 0) \<and>
         (past \<noteq> 0 \<longrightarrow> calculate_growth current past =
             min (((current - past) / past) * 100) MAX_GROWTH_CAP)"
  using assms by (simp add: calculate_growth_def)

theorem calculate_growth_cases_witness:
  "calculate_growth 80 0 = MAX_GROWTH_CAP \<and> calculate_growth 0 0 = 0 \<and>
   calculate_growth 80 20 = 300 \<and> calculate_growth 100 (1 / 2) = MAX_GROWTH_CAP"
  using calculate_growth_cases [of 80 0] calculate_growth_cases [of 0 0]
    calculate_growth_cases [of 80 20] calculate_growth_cases [of 100 "1 / 2"]
  by (simp add: MAX_GROWTH_CAP_def)

text \<open>
  Claim C9. For non-negative inputs the growth lies between -100 and the cap; every value
  of that range is the growth of some non-negative pair; and nothing bounds the growth from
  below in the code: a negative \<open>current\<close> gives a growth under -100.
\<close>

theorem calculate_growth_range:
  "(0 \<le> current \<and> 0 \<le> past \<longrightarrow>
      - 100 \<le> calculate_growth current past \<and> calculate_growth current past \<le> MAX_GROWTH_CAP) \<and>
   (- 100 \<le> v \<and> v \<le> MAX_GROWTH_CAP \<longrightarrow>
      (\<exists>c p. 0 \<le> c \<and> 0 \<le> p \<and> calculate_growth c p = v)) \<and>
   calculate_growth (- 1) 1 = - 200"
proof -
  have "- 100 \<le> calculate_growth current past \<and> calculate_growth current past \<le> MAX_GROWTH_CAP"
    if "0 \<le> current" "0 \<le> past"
    using that by (auto simp add: calculate_growth_def MAX_GROWTH_CAP_def Let_def field_simps)
  moreover have "\<exists>c p. 0 \<le> c \<and> 0 \<le> p \<and> calculate_growth c p = v"
    if "- 100 \<le> v" "v \<le> MAX_GROWTH_CAP"
  proof -
    have "calculate_growth (1 + v / 100) 1 = v"
      using that by (simp add: calculate_growth_def)
    moreover have "0 \<le> 1 + v / 100"
      using that by simp
    ultimately show ?thesis
      by (metis zero_le_one)
  qed
  moreover have "calculate_growth (- 1) 1 = - 200"
    by (simp add: calculate_growth_def MAX_GROWTH_CAP_def)
  ultimately show ?thesis by blast
qed

theorem calculate_growth_range_witness:
  "(0::real) \<le> 25 \<and> (0::real) \<le> 100 \<and> calculate_growth 25 100 = - 75 \<and>
   - 100 \<le> calculate_growth 25 100 \<and> calculate_growth 25 100 \<le> MAX_GROWTH_CAP \<and>
   (\<exists>c p. 0 \<le> c \<and> 0 \<le> p \<and> calculate_growth c p = - 100) \<and>
   (\<exists>c p. 0 \<le> c \<and> 0 \<le> p \<and> calculate_growth c p = MAX_GROWTH_CAP)"
  using calculate_growth_range [of 25 100 "- 100"] calculate_growth_range [of 25 100 MAX_GROWTH_CAP]
  by (simp add: calculate_growth_def MAX_GROWTH_CAP_def)

text \<open>
  Claim C5. A result with an error never passes, and a result with no error passes exactly
  when one of the five horizon growths reaches \<open>MIN_GROWTH_THRESHOLD\<close>. The code at a result
  that was saved with no error and a one-year growth of 300: it passes before the save, and
  after the load, its error being \<^verbatim>\<open>nan\<close>, it does not.
\<close>

theorem passes_threshold_reloaded:
  "error example_rising = PyNone \<and> passes_threshold example_rising \<and>
   example_read_csv (pandas_to_csv [example_rising]) = [example_reloaded] \<and>
   error example_reloaded = NaN \<and> MIN_GROWTH_THRESHOLD \<le> growth_1yr example_reloaded \<and>
   \<not> passes_threshold example_reloaded"
  by (simp add: passes_threshold_def MIN_GROWTH_THRESHOLD_def example_rising_def
      example_reloaded_def initial_result_def example_read_csv_def pandas_to_csv_def read_field_def)

subsection \<open>Score\<close>








section \<open>Properties of the checkpoint store\<close>

text \<open>
  Claim C10. Saving an empty collection changes nothing: no file is written and an existing
  checkpoint stays as it is.
\<close>

theorem save_checkpoint_empty_noop:
  "save_checkpoint to_csv [] w = w"
  by (simp add: save_checkpoint_def)

section \<open>Properties of a fetch\<close>

lemma backoff_trace_0: "backoff_trace sc kw tr 0 = tr"
  by (simp add: backoff_trace_def)

lemma backoff_trace_Suc:
  "backoff_trace sc kw tr (Suc j) = backoff_trace sc kw (tr @ [Request kw, Sleep (RETRY_DELAY sc)]) j"
  by (simp add: backoff_trace_def)




lemma keyword_set_growth: "keyword (set_growth df r) = keyword r"
  by (simp add: set_growth_def split: option.splits)

lemma keyword_set_related: "keyword (set_related rel r) = keyword r"
  by (cases rel) (simp_all add: Let_def split: option.splits)

lemma keyword_set_score: "keyword (set_score py_round r) = keyword r"
  by (simp add: set_score_def)

lemma attempt_loop_backoff:
  "k \<le> n \<Longrightarrow> \<forall>j<k. rate_limited (interest_over_time api (backoff_trace sc kw tr j) kw) \<Longrightarrow>
   attempt_loop sc py_round api kw res n tr = attempt_loop sc py_round api kw res (n - k) (backoff_trace sc kw tr k)"
proof (induction k arbitrary: n tr)
  case 0
  then show ?case by (simp add: backoff_trace_0)
next
  case (Suc k)
  then obtain m where n: "n = Suc m" and km: "k \<le> m"
    by (cases n) auto
  from Suc.prems(2) have first: "rate_limited (interest_over_time api tr kw)"
    using backoff_trace_0 [of sc kw tr] by (metis zero_less_Suc)
  from Suc.prems(2) have rest:
    "\<forall>j<k. rate_limited (interest_over_time api (backoff_trace sc kw (tr @ [Request kw, Sleep (RETRY_DELAY sc)]) j) kw)"
    by (simp add: backoff_trace_Suc [symmetric])
  from first have "attempt_loop sc py_round api kw res (Suc m) tr =
      attempt_loop sc py_round api kw res m (tr @ [Request kw, Sleep (RETRY_DELAY sc)])"
    by (simp add: rate_limited_def split: interest_response.splits)
  also have "\<dots> = attempt_loop sc py_round api kw res (m - k)
      (backoff_trace sc kw (tr @ [Request kw, Sleep (RETRY_DELAY sc)]) k)"
    using Suc.IH [OF km rest] .
  finally show ?case
    by (simp add: n backoff_trace_Suc)
qed



lemma attempt_loop_keyword:
  "keyword (fst (attempt_loop sc py_round api kw res n tr)) = keyword res"
proof (induction n arbitrary: tr)
  case 0
  then show ?case by simp
next
  case (Suc n)
  then show ?case
    by (cases "interest_over_time api tr kw")
      (simp_all add: Let_def keyword_set_growth keyword_set_related keyword_set_score)
qed

text \<open>
  Claim C6, as stated (the stored message of a failure that is not a rate limit is
  truncated): \<^verbatim>\<open>niche_scanner.py\<close> stores the message whole.
\<close>

theorem get_keyword_data_truncation_counterexample:
  "get_keyword_data NicheScanner half_even_round2 timeout_api ''zinc'' ''supplements'' [] =
     ((initial_result ''zinc'' ''supplements'')\<lparr>error := Str timeout_text\<rparr>, [Request ''zinc'']) \<and>
   length timeout_text = 70 \<and> take 50 timeout_text \<noteq> timeout_text"
proof -
  have "\<not> is_rate_limit timeout_text"
    by code_simp
  then have "get_keyword_data NicheScanner half_even_round2 timeout_api ''zinc'' ''supplements'' [] =
     ((initial_result ''zinc'' ''supplements'')\<lparr>error := Str timeout_text\<rparr>, [Request ''zinc''])"
    by (simp add: get_keyword_data_def MAX_RETRIES_def numeral_3_eq_3 timeout_api_def)
  moreover have "length timeout_text = 70 \<and> take 50 timeout_text \<noteq> timeout_text"
    by (simp add: timeout_text_def)
  ultimately show ?thesis by blast
qed

text \<open>
  Claim C6, amended. A failure whose text contains \<^verbatim>\<open>429\<close> or, in any letter case, \<^verbatim>\<open>rate\<close>
  is followed by the backoff sleep and, while attempts are left, by a retry; after
  \<open>MAX_RETRIES\<close> such failures the result carries the max-retries error. Any other failure
  ends the fetch at once, with no sleep and no retry: \<^verbatim>\<open>full_scan.py\<close> stores the first 50
  characters of the message, \<^verbatim>\<open>niche_scanner.py\<close> the whole message. An empty frame ends the
  fetch at once with the error \<^verbatim>\<open>No data\<close>.
\<close>

theorem get_keyword_data_failures:
  "((\<forall>j<MAX_RETRIES. rate_limited (interest_over_time api (backoff_trace sc kw tr j) kw)) \<longrightarrow>
      get_keyword_data sc py_round api kw cat tr =
        ((initial_result kw cat)\<lparr>error := Str (max_retries_text sc)\<rparr>,
         backoff_trace sc kw tr MAX_RETRIES)) \<and>
   (k < MAX_RETRIES \<and> (\<forall>j<k. rate_limited (interest_over_time api (backoff_trace sc kw tr j) kw)) \<longrightarrow>
      get_keyword_data sc py_round api kw cat tr =
        attempt_loop sc py_round api kw (initial_result kw cat) (MAX_RETRIES - k) (backoff_trace sc kw tr k) \<and>
      (interest_over_time api (backoff_trace sc kw tr k) kw = Raises msg \<and> \<not> is_rate_limit msg \<longrightarrow>
         get_keyword_data sc py_round api kw cat tr =
           ((initial_result kw cat)\<lparr>error := Str (stored_error sc msg)\<rparr>,
            backoff_trace sc kw tr k @ [Request kw])) \<and>
      (interest_over_time api (backoff_trace sc kw tr k) kw = Frame [] \<longrightarrow>
         get_keyword_data sc py_round api kw cat tr =
           ((initial_result kw cat)\<lparr>error := Str ''No data''\<rparr>,
            backoff_trace sc kw tr k @ [Request kw]))) \<and>
   stored_error FullScan msg = take 50 msg \<and> stored_error NicheScanner msg = msg \<and>
   (is_rate_limit msg \<longleftrightarrow> sublist ''429'' msg \<or> sublist ''rate'' (lower msg))"
proof -
  let ?init = "initial_result kw cat"
  have a: "get_keyword_data sc py_round api kw cat tr =
      (?init\<lparr>error := Str (max_retries_text sc)\<rparr>, backoff_trace sc kw tr MAX_RETRIES)"
    if "\<forall>j<MAX_RETRIES. rate_limited (interest_over_time api (backoff_trace sc kw tr j) kw)"
    using attempt_loop_backoff [where k = MAX_RETRIES and n = MAX_RETRIES and api = api and sc = sc and kw = kw and tr = tr and res = ?init and py_round = py_round] that
    by (simp add: get_keyword_data_def)
  have b: "get_keyword_data sc py_round api kw cat tr =
      attempt_loop sc py_round api kw ?init (MAX_RETRIES - k) (backoff_trace sc kw tr k)"
    if "k < MAX_RETRIES" "\<forall>j<k. rate_limited (interest_over_time api (backoff_trace sc kw tr j) kw)"
    using attempt_loop_backoff [where k = k and n = MAX_RETRIES and api = api and sc = sc and kw = kw and tr = tr and res = ?init and py_round = py_round] that
    by (simp add: get_keyword_data_def)
  have c: "get_keyword_data sc py_round api kw cat tr =
      (?init\<lparr>error := Str (stored_error sc msg)\<rparr>, backoff_trace sc kw tr k @ [Request kw])"
    if "k < MAX_RETRIES" "\<forall>j<k. rate_limited (interest_over_time api (backoff_trace sc kw tr j) kw)"
      "interest_over_time api (backoff_trace sc kw tr k) kw = Raises msg" "\<not> is_rate_limit msg"
  proof -
    from that(1) obtain m where m: "MAX_RETRIES - k = Suc m"
      by (metis Suc_diff_Suc)
    show ?thesis
      using b [OF that(1,2)] that(3,4) by (simp add: m)
  qed
  have d: "get_keyword_data sc py_round api kw cat tr =
      (?init\<lparr>error := Str ''No data''\<rparr>, backoff_trace sc kw tr k @ [Request kw])"
    if "k < MAX_RETRIES" "\<forall>j<k. rate_limited (interest_over_time api (backoff_trace sc kw tr j) kw)"
      "interest_over_time api (backoff_trace sc kw tr k) kw = Frame []"
  proof -
    from that(1) obtain m where m: "MAX_RETRIES - k = Suc m"
      by (metis Suc_diff_Suc)
    show ?thesis
      using b [OF that(1,2)] that(3) by (simp add: m)
  qed
  have e: "stored_error FullScan msg = take 50 msg \<and> stored_error NicheScanner msg = msg \<and>
    (is_rate_limit msg \<longleftrightarrow> sublist ''429'' msg \<or> sublist ''rate'' (lower msg))"
    by (simp add: is_rate_limit_def)
  from a b c d e show ?thesis by blast
qed

theorem get_keyword_data_failures_witness:
  "get_keyword_data FullScan half_even_round2 busy_api ''zinc'' ''supplements'' [] =
     ((initial_result ''zinc'' ''supplements'')\<lparr>error := Str ''Max retries''\<rparr>,
      [Request ''zinc'', Sleep 45, Request ''zinc'', Sleep 45, Request ''zinc'', Sleep 45]) \<and>
   get_keyword_data FullScan half_even_round2 flaky_api ''zinc'' ''supplements'' [] =
     ((initial_result ''zinc'' ''supplements'')
        \<lparr>error := Str ''HTTPSConnectionPool(host=trends.google.com, port=4''\<rparr>,
      [Request ''zinc'', Sleep 45, Request ''zinc'']) \<and>
   get_keyword_data NicheScanner half_even_round2 flaky_api ''zinc'' ''supplements'' [] =
     ((initial_result ''zinc'' ''supplements'')\<lparr>error := Str timeout_text\<rparr>,
      [Request ''zinc'', Sleep 30, Request ''zinc'']) \<and>
   get_keyword_data NicheScanner half_even_round2 no_data_api ''zinc'' ''supplements'' [] =
     ((initial_result ''zinc'' ''supplements'')\<lparr>error := Str ''No data''\<rparr>, [Request ''zinc''])"
proof -
  have rl1: "is_rate_limit ''Too Many Requests (429)''" by code_simp
  have rl2: "is_rate_limit ''Rate exceeded''" by code_simp
  have rl3: "\<not> is_rate_limit timeout_text" by code_simp
  have cut: "take 50 timeout_text = ''HTTPSConnectionPool(host=trends.google.com, port=4''"
    by (simp add: timeout_text_def)
  have busy: "\<forall>j<MAX_RETRIES. rate_limited (interest_over_time busy_api (backoff_trace FullScan ''zinc'' [] j) ''zinc'')"
    using rl1 by (simp add: busy_api_def rate_limited_def)
  have 1: "get_keyword_data FullScan half_even_round2 busy_api ''zinc'' ''supplements'' [] =
     ((initial_result ''zinc'' ''supplements'')\<lparr>error := Str ''Max retries''\<rparr>,
      [Request ''zinc'', Sleep 45, Request ''zinc'', Sleep 45, Request ''zinc'', Sleep 45])"
    using busy get_keyword_data_failures [where api = busy_api and sc = FullScan and py_round = half_even_round2 and kw = "''zinc''" and tr = "[]" and cat = "''supplements''" and k = 0 and msg = "[]"]
    by (simp add: MAX_RETRIES_def backoff_trace_def numeral_3_eq_3)
  have first: "\<forall>j<1. rate_limited (interest_over_time flaky_api (backoff_trace sc ''zinc'' [] j) ''zinc'')" for sc
    using rl2 by (simp add: flaky_api_def rate_limited_def backoff_trace_def)
  have second: "interest_over_time flaky_api (backoff_trace sc ''zinc'' [] 1) ''zinc'' = Raises timeout_text" for sc
    by (simp add: flaky_api_def backoff_trace_def)
  have lt: "1 < MAX_RETRIES"
    by (simp add: MAX_RETRIES_def)
  have "get_keyword_data FullScan half_even_round2 flaky_api ''zinc'' ''supplements'' [] =
     ((initial_result ''zinc'' ''supplements'')\<lparr>error := Str (stored_error FullScan timeout_text)\<rparr>,
      backoff_trace FullScan ''zinc'' [] 1 @ [Request ''zinc''])"
    using lt first [of FullScan] second [of FullScan] rl3
      get_keyword_data_failures [where api = flaky_api and sc = FullScan and py_round = half_even_round2 and kw = "''zinc''" and tr = "[]" and cat = "''supplements''" and k = 1 and msg = timeout_text]
    by blast
  then have 2: "get_keyword_data FullScan half_even_round2 flaky_api ''zinc'' ''supplements'' [] =
     ((initial_result ''zinc'' ''supplements'')
        \<lparr>error := Str ''HTTPSConnectionPool(host=trends.google.com, port=4''\<rparr>,
      [Request ''zinc'', Sleep 45, Request ''zinc''])"
    by (simp add: cut backoff_trace_def)
  have "get_keyword_data NicheScanner half_even_round2 flaky_api ''zinc'' ''supplements'' [] =
     ((initial_result ''zinc'' ''supplements'')\<lparr>error := Str (stored_error NicheScanner timeout_text)\<rparr>,
      backoff_trace NicheScanner ''zinc'' [] 1 @ [Request ''zinc''])"
    using lt first [of NicheScanner] second [of NicheScanner] rl3
      get_keyword_data_failures [where api = flaky_api and sc = NicheScanner and py_round = half_even_round2 and kw = "''zinc''" and tr = "[]" and cat = "''supplements''" and k = 1 and msg = timeout_text]
    by blast
  then have 3: "get_keyword_data NicheScanner half_even_round2 flaky_api ''zinc'' ''supplements'' [] =
     ((initial_result ''zinc'' ''supplements'')\<lparr>error := Str timeout_text\<rparr>,
      [Request ''zinc'', Sleep 30, Request ''zinc''])"
    by (simp add: backoff_trace_def)
  have zero: "0 < MAX_RETRIES"
    "\<forall>j<0. rate_limited (interest_over_time no_data_api (backoff_trace NicheScanner ''zinc'' [] j) ''zinc'')"
    "interest_over_time no_data_api (backoff_trace NicheScanner ''zinc'' [] 0) ''zinc'' = Frame []"
    by (simp_all add: MAX_RETRIES_def no_data_api_def)
  have "get_keyword_data NicheScanner half_even_round2 no_data_api ''zinc'' ''supplements'' [] =
     ((initial_result ''zinc'' ''supplements'')\<lparr>error := Str ''No data''\<rparr>,
      backoff_trace NicheScanner ''zinc'' [] 0 @ [Request ''zinc''])"
    using zero get_keyword_data_failures [where api = no_data_api and sc = NicheScanner and py_round = half_even_round2 and kw = "''zinc''" and tr = "[]" and cat = "''supplements''" and k = 0 and msg = "[]"]
    by blast
  then have 4: "get_keyword_data NicheScanner half_even_round2 no_data_api ''zinc'' ''supplements'' [] =
     ((initial_result ''zinc'' ''supplements'')\<lparr>error := Str ''No data''\<rparr>, [Request ''zinc''])"
    by (simp add: backoff_trace_def)
  from 1 2 3 4 show ?thesis by blast
qed



section \<open>Properties of the scan\<close>

lemma requests_append: "requests (tr @ tr') = requests tr @ requests tr'"
  by (induction tr rule: requests.induct) simp_all

lemma set_requests: "set (requests tr) = {kw. Request kw \<in> set tr}"
  by (induction tr rule: requests.induct) auto

lemma get_keyword_data_keyword: "keyword (fst (get_keyword_data sc py_round api kw cat tr)) = kw"
  by (simp add: get_keyword_data_def attempt_loop_keyword initial_result_def)

lemma attempt_loop_requests:
  "set (requests (snd (attempt_loop sc py_round api kw res n tr))) =
     (if n = 0 then set (requests tr) else insert kw (set (requests tr)))"
proof (induction n arbitrary: tr)
  case 0
  then show ?case by simp
next
  case (Suc n)
  show ?case
  proof (cases "interest_over_time api tr kw")
    case (Raises msg)
    then show ?thesis
      using Suc [of "tr @ [Request kw, Sleep (RETRY_DELAY sc)]"]
      by (simp add: requests_append)
  next
    case (Frame df)
    then show ?thesis
      by (simp add: Let_def requests_append)
  qed
qed

lemma get_keyword_data_requests:
  "set (requests (snd (get_keyword_data sc py_round api kw cat tr))) = insert kw (set (requests tr))"
  by (simp add: get_keyword_data_def attempt_loop_requests MAX_RETRIES_def)

lemma trace_save_checkpoint: "trace (save_checkpoint to_csv results w) = trace w"
  by (simp add: save_checkpoint_def)

lemma scan_loop_results:
  "\<exists>produced. fst (scan_loop py_round api to_csv i remaining results w) = results @ produced \<and>
     map keyword produced = map task_keyword remaining"
proof (induction remaining arbitrary: i results w)
  case Nil
  then show ?case by simp
next
  case (Cons kw_data rest)
  let ?g = "get_keyword_data FullScan py_round api (task_keyword kw_data) (task_category kw_data) (trace w)"
  let ?w1 = "w\<lparr>trace := snd ?g\<rparr>"
  let ?w2 = "if (i + 1) mod CHECKPOINT_INTERVAL = 0 then save_checkpoint to_csv (results @ [fst ?g]) ?w1 else ?w1"
  let ?w3 = "?w2\<lparr>trace := trace ?w2 @ [Sleep (REQUEST_DELAY FullScan)]\<rparr>"
  have step: "scan_loop py_round api to_csv i (kw_data # rest) results w =
      scan_loop py_round api to_csv (i + 1) rest (results @ [fst ?g]) ?w3"
    by (simp add: Let_def split_beta)
  from Cons.IH [of "i + 1" "results @ [fst ?g]" ?w3]
  obtain produced where p:
    "fst (scan_loop py_round api to_csv (i + 1) rest (results @ [fst ?g]) ?w3) = (results @ [fst ?g]) @ produced"
    "map keyword produced = map task_keyword rest"
    by blast
  have "fst (scan_loop py_round api to_csv i (kw_data # rest) results w) = results @ (fst ?g # produced)"
    using step p(1) by simp
  moreover have "map keyword (fst ?g # produced) = map task_keyword (kw_data # rest)"
    using p(2) by (simp add: get_keyword_data_keyword)
  ultimately show ?case by blast
qed

lemma scan_loop_requests:
  "set (requests (trace (snd (scan_loop py_round api to_csv i remaining results w)))) =
     set (requests (trace w)) \<union> task_keyword ` set remaining"
proof (induction remaining arbitrary: i results w)
  case Nil
  then show ?case by simp
next
  case (Cons kw_data rest)
  let ?g = "get_keyword_data FullScan py_round api (task_keyword kw_data) (task_category kw_data) (trace w)"
  let ?w1 = "w\<lparr>trace := snd ?g\<rparr>"
  let ?w2 = "if (i + 1) mod CHECKPOINT_INTERVAL = 0 then save_checkpoint to_csv (results @ [fst ?g]) ?w1 else ?w1"
  let ?w3 = "?w2\<lparr>trace := trace ?w2 @ [Sleep (REQUEST_DELAY FullScan)]\<rparr>"
  have step: "scan_loop py_round api to_csv i (kw_data # rest) results w =
      scan_loop py_round api to_csv (i + 1) rest (results @ [fst ?g]) ?w3"
    by (simp add: Let_def split_beta)
  have "trace ?w2 = snd ?g"
    by (simp add: trace_save_checkpoint)
  then have "set (requests (trace ?w3)) = insert (task_keyword kw_data) (set (requests (trace w)))"
    by (simp add: requests_append get_keyword_data_requests)
  then show ?case
    using Cons.IH [of "i + 1" "results @ [fst ?g]" ?w3] step by auto
qed

lemma length_filter_key:
  assumes "distinct (map f xs)" and "finite S" and "S \<subseteq> f ` set xs"
  shows "length (filter (\<lambda>x. f x \<in> S) xs) = card S"
proof -
  have "distinct (map f (filter (\<lambda>x. f x \<in> S) xs))"
    using assms(1) by (simp add: distinct_map_filter)
  then have "length (filter (\<lambda>x. f x \<in> S) xs) = card (f ` set (filter (\<lambda>x. f x \<in> S) xs))"
    by (metis distinct_card length_map set_map)
  moreover have "f ` set (filter (\<lambda>x. f x \<in> S) xs) = S"
    using assms(3) by auto
  ultimately show ?thesis by simp
qed

lemma length_remaining_of:
  assumes "distinct (map task_key all_keywords)"
    and "distinct (map result_key results0)"
    and "set (map result_key results0) \<subseteq> set (map task_key all_keywords)"
  shows "length (remaining_of all_keywords (set (map result_key results0))) =
     length all_keywords - length results0"
proof -
  let ?S = "set (map result_key results0)"
  have "?S \<subseteq> task_key ` set all_keywords"
    using assms(3) by simp
  then have "length (filter (\<lambda>k. task_key k \<in> ?S) all_keywords) = card ?S"
    using assms(1) by (intro length_filter_key) simp_all
  also have "card ?S = length results0"
    using assms(2) by (metis distinct_card length_map)
  finally have in_S: "length (filter (\<lambda>k. task_key k \<in> ?S) all_keywords) = length results0" .
  have "length (filter (\<lambda>k. task_key k \<in> ?S) all_keywords) +
      length (filter (\<lambda>k. \<not> task_key k \<in> ?S) all_keywords) = length all_keywords"
    by (rule sum_length_filter_compl)
  with in_S show ?thesis
    by (simp add: remaining_of_def task_key_def)
qed

text \<open>
  The queue that \<^verbatim>\<open>main\<close> scans has no two keywords equal up to letter case, and loses no
  keyword of the list it was built from.
\<close>

lemma dedupe_loop_keys:
  "seen = set (map task_key unique) \<Longrightarrow> distinct (map task_key unique) \<Longrightarrow>
   distinct (map task_key (dedupe_loop seen unique all_keywords)) \<and>
   set (map task_key (dedupe_loop seen unique all_keywords)) = seen \<union> set (map task_key all_keywords)"
proof (induction all_keywords arbitrary: seen unique)
  case Nil
  then show ?case by simp
next
  case (Cons kw rest)
  show ?case
  proof (cases "task_key kw \<in> seen")
    case True
    then have "dedupe_loop seen unique (kw # rest) = dedupe_loop seen unique rest"
      by (simp add: task_key_def)
    with Cons True show ?thesis by auto
  next
    case False
    then have step: "dedupe_loop seen unique (kw # rest) =
        dedupe_loop (insert (task_key kw) seen) (unique @ [kw]) rest"
      by (simp add: task_key_def)
    have "insert (task_key kw) seen = set (map task_key (unique @ [kw]))"
      using Cons.prems(1) by simp
    moreover have "distinct (map task_key (unique @ [kw]))"
      using Cons.prems False by simp
    ultimately show ?thesis
      using Cons.IH [of "insert (task_key kw) seen" "unique @ [kw]"] step by auto
  qed
qed

lemma dedupe_distinct:
  "distinct (map task_key (dedupe all_keywords)) \<and>
   set (map task_key (dedupe all_keywords)) = set (map task_key all_keywords)"
  using dedupe_loop_keys [of "{}" "[]" all_keywords] by (simp add: dedupe_def)

lemma load_checkpoint_processed:
  "load_checkpoint FullScan read_csv w = (results0, processed) \<Longrightarrow>
   processed = set (map result_key results0)"
  by (auto simp add: load_checkpoint_def Let_def result_key_def split: option.splits)

lemma run_scan_scan_loop:
  assumes "load_checkpoint FullScan read_csv w = (results0, processed)"
  shows "fst (run_scan py_round api read_csv to_csv all_keywords w) =
           fst (scan_loop py_round api to_csv 0 (remaining_of all_keywords processed) results0 w)"
    and "trace (snd (run_scan py_round api read_csv to_csv all_keywords w)) =
           trace (snd (scan_loop py_round api to_csv 0 (remaining_of all_keywords processed) results0 w))"
  using assms by (simp_all add: run_scan_def Let_def split_beta trace_save_checkpoint)

text \<open>
  Claim C2. Let the queue hold N keywords, distinct up to letter case, and let the loaded
  checkpoint hold K results whose keywords are distinct and belong to the queue. Then the
  resumed run fetches the N - K keywords of the queue that are not in the processed set and
  no other; the final collection is the checkpointed results followed by one result per
  fetched keyword; it has N entries, no two with the same keyword, and its keywords are
  those of the queue.
\<close>

theorem resumed_scan_exactly_once:
  assumes "load_checkpoint FullScan read_csv w = (results0, processed)"
    and "distinct (map task_key all_keywords)"
    and "distinct (map result_key results0)"
    and "set (map result_key results0) \<subseteq> set (map task_key all_keywords)"
  shows "length (remaining_of all_keywords processed) = length all_keywords - length results0 \<and>
    set (remaining_of all_keywords processed) = {k \<in> set all_keywords. task_key k \<notin> processed} \<and>
    set (requests (trace (snd (run_scan py_round api read_csv to_csv all_keywords w)))) =
      set (requests (trace w)) \<union> task_keyword ` set (remaining_of all_keywords processed) \<and>
    (\<exists>produced. fst (run_scan py_round api read_csv to_csv all_keywords w) = results0 @ produced \<and>
       map keyword produced = map task_keyword (remaining_of all_keywords processed)) \<and>
    length (fst (run_scan py_round api read_csv to_csv all_keywords w)) = length all_keywords \<and>
    distinct (map result_key (fst (run_scan py_round api read_csv to_csv all_keywords w))) \<and>
    set (map result_key (fst (run_scan py_round api read_csv to_csv all_keywords w))) =
      set (map task_key all_keywords)"
proof -
  let ?remaining = "remaining_of all_keywords processed"
  let ?final = "fst (run_scan py_round api read_csv to_csv all_keywords w)"
  have processed: "processed = set (map result_key results0)"
    using assms(1) by (rule load_checkpoint_processed)
  have len: "length ?remaining = length all_keywords - length results0"
    unfolding processed using assms(2,3,4) by (rule length_remaining_of)
  have rem: "set ?remaining = {k \<in> set all_keywords. task_key k \<notin> processed}"
    by (simp add: remaining_of_def task_key_def)
  have req: "set (requests (trace (snd (run_scan py_round api read_csv to_csv all_keywords w)))) =
      set (requests (trace w)) \<union> task_keyword ` set ?remaining"
    by (simp only: run_scan_scan_loop(2) [OF assms(1)] scan_loop_requests)
  from scan_loop_results [where py_round = py_round and api = api and to_csv = to_csv and i = 0 and remaining = ?remaining and results = results0 and w = w]
  obtain produced where produced: "?final = results0 @ produced"
    "map keyword produced = map task_keyword ?remaining"
    unfolding run_scan_scan_loop(1) [OF assms(1)] by blast
  have "map result_key produced = map lower (map keyword produced)"
    by (simp add: result_key_def comp_def)
  also have "\<dots> = map task_key ?remaining"
    by (simp add: produced(2) task_key_def comp_def)
  finally have keys: "map result_key ?final = map result_key results0 @ map task_key ?remaining"
    by (simp add: produced(1))
  have d_rem: "distinct (map task_key ?remaining)"
    using assms(2) by (simp add: remaining_of_def distinct_map_filter)
  have "processed \<inter> set (map task_key ?remaining) = {}"
    using rem by auto
  then have disj: "set (map result_key results0) \<inter> set (map task_key ?remaining) = {}"
    by (simp only: processed)
  have dist: "distinct (map result_key ?final)"
    unfolding keys using assms(3) d_rem disj by simp
  have sets: "set (map result_key ?final) = set (map task_key all_keywords)"
  proof -
    have "processed \<union> set (map task_key ?remaining) = set (map task_key all_keywords)"
      using assms(4) rem unfolding processed [symmetric] by auto
    then show ?thesis
      unfolding keys by (simp add: processed)
  qed
  have "length ?final = card (set (map result_key ?final))"
    using dist by (metis distinct_card length_map)
  also have "\<dots> = length all_keywords"
    unfolding sets using assms(2) by (metis distinct_card length_map)
  finally have total: "length ?final = length all_keywords" .
  from len rem req produced dist sets total show ?thesis
    by blast
qed

theorem resumed_scan_exactly_once_witness:
  "load_checkpoint FullScan id example_world = (example_checkpoint, {''pcos''}) \<and>
   distinct (map task_key example_queue) \<and>
   distinct (map result_key example_checkpoint) \<and>
   set (map result_key example_checkpoint) \<subseteq> set (map task_key example_queue) \<and>
   length (remaining_of example_queue {''pcos''}) = 2 \<and>
   set (requests (trace (snd (run_scan half_even_round2 no_data_api id id example_queue example_world)))) =
     {''zinc'', ''GABA''} \<and>
   length (fst (run_scan half_even_round2 no_data_api id id example_queue example_world)) = 3 \<and>
   distinct (map result_key (fst (run_scan half_even_round2 no_data_api id id example_queue example_world)))"
proof -
  have keys: "map task_key example_queue = [''zinc'', ''pcos'', ''gaba'']"
    "map result_key example_checkpoint = [''pcos'']"
    by code_simp+
  have h1: "load_checkpoint FullScan id example_world = (example_checkpoint, {''pcos''})"
    by code_simp
  have h2: "distinct (map task_key example_queue)"
    by (simp add: keys)
  have h3: "distinct (map result_key example_checkpoint)"
    by (simp add: keys)
  have h4: "set (map result_key example_checkpoint) \<subseteq> set (map task_key example_queue)"
    by (simp add: keys)
  have rem: "remaining_of example_queue {''pcos''} =
      [\<lparr>task_keyword = ''zinc'', task_category = ''supplements''\<rparr>,
       \<lparr>task_keyword = ''GABA'', task_category = ''sleep_stress''\<rparr>]"
    by code_simp
  have lens: "length example_queue = 3" "length example_checkpoint = 1" "trace example_world = []"
    by (simp_all add: example_queue_def example_checkpoint_def example_world_def)
  from resumed_scan_exactly_once [where py_round = half_even_round2 and api = no_data_api and to_csv = id, OF h1 h2 h3 h4] h1 h2 h3 h4 rem
  show ?thesis
    by (simp add: lens)
qed

section \<open>Properties of the final output\<close>

lemma mset_sort_values_desc: "mset (sort_values_desc rows) = mset rows"
  by (simp add: sort_values_desc_def)

lemma sorted_sort_values_desc:
  "sorted_wrt (\<lambda>a b. recommendation_score b \<le> recommendation_score a) (sort_values_desc rows)"
proof -
  have "sorted (map (\<lambda>r. - recommendation_score r) (sort_values_desc rows))"
    unfolding sort_values_desc_def by (rule sorted_sort_key)
  then show ?thesis
    by (simp add: sorted_map)
qed

lemma passes_threshold_falsy: "passes_threshold r \<Longrightarrow> \<not> truthy (error r)"
  by (simp add: passes_threshold_def split: if_splits)

lemma truthy_iff: "\<not> truthy e \<longleftrightarrow> e = PyNone \<or> e = Str []"
  by (cases e) simp_all

text \<open>
  Claim C3, as stated (the rows written are exactly the results that pass the filter, each
  with a null error): \<^verbatim>\<open>save_final_results\<close> writes a result that does not pass when none
  passes, and \<^verbatim>\<open>main\<close> of \<^verbatim>\<open>full_scan.py\<close> writes a result with an error.
\<close>

theorem final_output_counterexample:
  "save_final_results id [example_flat, example_failed] empty_world =
     Inr ([example_flat], empty_world\<lparr>output_file := Some [example_flat], checkpoint_file := None\<rparr>) \<and>
   \<not> passes_threshold example_flat \<and>
   final_output id [example_failed] empty_world =
     Inr (empty_world\<lparr>output_file := Some [example_failed], checkpoint_file := None\<rparr>) \<and>
   error example_failed \<noteq> PyNone"
  by (simp add: save_final_results_def final_output_def sort_values_desc_def passes_threshold_def example_flat_def example_failed_def initial_result_def MIN_GROWTH_THRESHOLD_def Let_def)

text \<open>
  Claim C3, amended. \<^verbatim>\<open>save_final_results\<close> writes the results for which
  \<^verbatim>\<open>passes_threshold\<close> holds when there is one, and otherwise the results whose error the
  truth test takes for false, \<^verbatim>\<open>None\<close> or the empty string; every row it writes has such an
  error, and it writes a file exactly when some result has one. \<^verbatim>\<open>main\<close> of
  \<^verbatim>\<open>full_scan.py\<close> writes every result of the scan. In both the rows are in descending
  order of \<^verbatim>\<open>recommendation_score\<close> and the checkpoint file is removed.
\<close>

theorem final_output_rows:
  "(save_final_results to_csv results w = Inr (rows, w') \<longrightarrow>
      output_file w' = Some (to_csv rows) \<and> checkpoint_file w' = None \<and>
      mset rows = mset (if \<exists>r \<in> set results. passes_threshold r
                        then filter passes_threshold results
                        else filter (\<lambda>r. error r = PyNone \<or> error r = Str []) results) \<and>
      sorted_wrt (\<lambda>a b. recommendation_score b \<le> recommendation_score a) rows \<and>
      (\<forall>r \<in> set rows. error r = PyNone \<or> error r = Str [])) \<and>
   ((\<exists>rows w'. save_final_results to_csv results w = Inr (rows, w')) \<longleftrightarrow>
      (\<exists>r \<in> set results. error r = PyNone \<or> error r = Str [])) \<and>
   (main py_round api read_csv to_csv seeds w = Inr w'' \<longrightarrow>
      (\<exists>rows. output_file w'' = Some (to_csv rows) \<and> checkpoint_file w'' = None \<and>
         mset rows = mset (fst (run_scan py_round api read_csv to_csv (dedupe seeds) w)) \<and>
         sorted_wrt (\<lambda>a b. recommendation_score b \<le> recommendation_score a) rows))"
proof -
  define passing where "passing =
    (if filter passes_threshold results = [] then filter (\<lambda>r. \<not> truthy (error r)) results
     else filter passes_threshold results)"
  have sfr: "save_final_results to_csv results w =
      (if passing = [] then Inl KeyError
       else Inr (sort_values_desc passing,
         w\<lparr>output_file := Some (to_csv (sort_values_desc passing)), checkpoint_file := None\<rparr>))"
    by (simp add: save_final_results_def passing_def Let_def)
  have passing_eq: "passing = (if \<exists>r \<in> set results. passes_threshold r
      then filter passes_threshold results
      else filter (\<lambda>r. error r = PyNone \<or> error r = Str []) results)"
    by (simp add: passing_def filter_empty_conv truthy_iff)
  have falsy: "\<forall>r \<in> set passing. error r = PyNone \<or> error r = Str []"
    using passes_threshold_falsy by (auto simp add: passing_def truthy_iff)
  have nonempty: "passing \<noteq> [] \<longleftrightarrow> (\<exists>r \<in> set results. error r = PyNone \<or> error r = Str [])"
    using passes_threshold_falsy by (auto simp add: passing_def filter_empty_conv truthy_iff)
  have a: "output_file w' = Some (to_csv rows) \<and> checkpoint_file w' = None \<and>
      mset rows = mset (if \<exists>r \<in> set results. passes_threshold r
                        then filter passes_threshold results
                        else filter (\<lambda>r. error r = PyNone \<or> error r = Str []) results) \<and>
      sorted_wrt (\<lambda>a b. recommendation_score b \<le> recommendation_score a) rows \<and>
      (\<forall>r \<in> set rows. error r = PyNone \<or> error r = Str [])"
    if "save_final_results to_csv results w = Inr (rows, w')"
  proof -
    from that have rows: "rows = sort_values_desc passing"
      and w': "w' = w\<lparr>output_file := Some (to_csv (sort_values_desc passing)), checkpoint_file := None\<rparr>"
      by (auto simp add: sfr split: if_splits)
    have "set rows = set passing"
      unfolding rows by (metis mset_sort_values_desc set_mset_mset)
    with falsy have "\<forall>r \<in> set rows. error r = PyNone \<or> error r = Str []"
      by simp
    moreover have "mset rows = mset passing"
      unfolding rows by (rule mset_sort_values_desc)
    moreover have "sorted_wrt (\<lambda>a b. recommendation_score b \<le> recommendation_score a) rows"
      unfolding rows by (rule sorted_sort_values_desc)
    moreover have "output_file w' = Some (to_csv rows) \<and> checkpoint_file w' = None"
      by (simp add: w' rows)
    ultimately show ?thesis
      unfolding passing_eq [symmetric] by blast
  qed
  have b: "(\<exists>rows w'. save_final_results to_csv results w = Inr (rows, w')) \<longleftrightarrow>
      (\<exists>r \<in> set results. error r = PyNone \<or> error r = Str [])"
    unfolding nonempty [symmetric] by (simp add: sfr)
  have c: "\<exists>rows. output_file w'' = Some (to_csv rows) \<and> checkpoint_file w'' = None \<and>
         mset rows = mset (fst (run_scan py_round api read_csv to_csv (dedupe seeds) w)) \<and>
         sorted_wrt (\<lambda>a b. recommendation_score b \<le> recommendation_score a) rows"
    if "main py_round api read_csv to_csv seeds w = Inr w''"
  proof -
    let ?results = "fst (run_scan py_round api read_csv to_csv (dedupe seeds) w)"
    let ?w1 = "snd (run_scan py_round api read_csv to_csv (dedupe seeds) w)"
    from that have "final_output to_csv ?results ?w1 = Inr w''"
      by (simp add: main_def Let_def split_beta)
    then have "w'' = ?w1\<lparr>output_file := Some (to_csv (sort_values_desc ?results)), checkpoint_file := None\<rparr>"
      by (simp add: final_output_def Let_def split: if_splits)
    then have "output_file w'' = Some (to_csv (sort_values_desc ?results)) \<and> checkpoint_file w'' = None"
      by simp
    then show ?thesis
      using mset_sort_values_desc sorted_sort_values_desc by blast
  qed
  from a b c show ?thesis by blast
qed

theorem final_output_rows_witness:
  "save_final_results id [example_rising, example_flat, example_breakout, example_failed] empty_world =
     Inr ([example_breakout, example_rising],
          empty_world\<lparr>output_file := Some [example_breakout, example_rising], checkpoint_file := None\<rparr>) \<and>
   passes_threshold example_breakout \<and> passes_threshold example_rising \<and>
   mset [example_breakout, example_rising] =
     mset (filter passes_threshold [example_rising, example_flat, example_breakout, example_failed]) \<and>
   sorted_wrt (\<lambda>a b. recommendation_score b \<le> recommendation_score a) [example_breakout, example_rising] \<and>
   error example_breakout = PyNone \<and> error example_rising = PyNone \<and>
   save_final_results id [example_reloaded, example_failed] empty_world = Inl KeyError \<and>
   (\<exists>w'' rows. main half_even_round2 no_data_api id id example_queue example_world = Inr w'' \<and>
      output_file w'' = Some rows \<and> checkpoint_file w'' = None \<and>
      mset rows = mset (fst (run_scan half_even_round2 no_data_api id id (dedupe example_queue) example_world)) \<and>
      sorted_wrt (\<lambda>a b. recommendation_score b \<le> recommendation_score a) rows)"
proof -
  let ?results = "[example_rising, example_flat, example_breakout, example_failed]"
  let ?rows = "[example_breakout, example_rising]"
  let ?w' = "empty_world\<lparr>output_file := Some ?rows, checkpoint_file := None\<rparr>"
  have run: "save_final_results id ?results empty_world = Inr (?rows, ?w')"
    by code_simp
  have pass: "passes_threshold example_breakout" "passes_threshold example_rising"
    "\<not> passes_threshold example_flat" "\<not> passes_threshold example_failed"
    by (simp_all add: passes_threshold_def MIN_GROWTH_THRESHOLD_def initial_result_def
        example_breakout_def example_rising_def example_flat_def example_failed_def)
  have "case main half_even_round2 no_data_api id id example_queue example_world of Inl e \<Rightarrow> False | Inr w'' \<Rightarrow> True"
    by code_simp
  then obtain w'' where w'': "main half_even_round2 no_data_api id id example_queue example_world = Inr w''"
    by (auto split: sum.splits)
  have part1: "mset ?rows = mset (filter passes_threshold ?results) \<and>
      sorted_wrt (\<lambda>a b. recommendation_score b \<le> recommendation_score a) ?rows \<and>
      (\<forall>r \<in> set ?rows. error r = PyNone \<or> error r = Str [])"
    using run pass
      final_output_rows [where to_csv = id and results = ?results and w = empty_world
        and rows = ?rows and w' = ?w']
    by simp
  have part2: "\<exists>rows. output_file w'' = Some rows \<and> checkpoint_file w'' = None \<and>
      mset rows = mset (fst (run_scan half_even_round2 no_data_api id id (dedupe example_queue) example_world)) \<and>
      sorted_wrt (\<lambda>a b. recommendation_score b \<le> recommendation_score a) rows"
    using w''
      final_output_rows [where to_csv = id and py_round = half_even_round2 and api = no_data_api and read_csv = id
        and seeds = example_queue and w = example_world and w'' = w'']
    by simp
  from part1 have part3: "error example_breakout = PyNone \<and> error example_rising = PyNone"
    by (simp add: example_breakout_def example_rising_def initial_result_def)
  have "\<not> (\<exists>r \<in> set [example_reloaded, example_failed]. error r = PyNone \<or> error r = Str [])"
    by (simp add: example_reloaded_def example_failed_def)
  then have "\<not> (\<exists>rows w'. save_final_results id [example_reloaded, example_failed] empty_world = Inr (rows, w'))"
    using final_output_rows [where to_csv = id and results = "[example_reloaded, example_failed]"
        and w = empty_world]
    by blast
  then have part4: "save_final_results id [example_reloaded, example_failed] empty_world = Inl KeyError"
    by (cases "save_final_results id [example_reloaded, example_failed] empty_world")
      (auto intro: py_error.exhaust)
  from run pass(1,2) part1 part2 part3 part4 w'' show ?thesis
    by blast
qed

section \<open>Saving and loading the checkpoint\<close>




end
